theory Spec2Isabelle
  imports Complex_Main "HOL-Library.Sublist" "HOL-Library.Char_ord" "HOL-Library.Word"
begin

section \<open>Values, exceptions and user-interface events\<close>

text \<open>
  A value in a table or in a dictionary: a string, a 64-bit integer (\<^verbatim>\<open>int64\<close>), a float
  with an integer value, or the missing value \<^verbatim>\<open>NaN\<close>. \<open>Flt n\<close> is the double nearest
  to the integer \<open>n\<close>. Strings are byte sequences (UTF-8). Floats with a fractional part
  and infinities are outside the model.
\<close>

datatype cell = Str string | Num "64 word" | Flt int | NaN

text \<open>
  The conversion of an integer to a double: 53 significant bits, rounding to the
  nearest, ties to the even mantissa. \<open>binade m\<close> is the number of low bits that do not
  fit.
\<close>

fun binade :: "nat \<Rightarrow> nat" where
  "binade m = (if m < 2 ^ 53 then 0 else Suc (binade (m div 2)))"

declare binade.simps [simp del]

definition round_nat :: "nat \<Rightarrow> nat" where
  "round_nat m =
     (let e = binade m; q = m div 2 ^ e; r = m mod 2 ^ e
      in if 2 * r > 2 ^ e \<or> (2 * r = 2 ^ e \<and> odd q) then (q + 1) * 2 ^ e else q * 2 ^ e)"

definition nearest_double :: "int \<Rightarrow> int" where
  "nearest_double i =
     (if i < 0 then - int (round_nat (nat (- i))) else int (round_nat (nat i)))"

text \<open>
  Python's \<^verbatim>\<open>==\<close> on two values: an integer and a float are compared by their exact
  values, and \<^verbatim>\<open>NaN\<close> equals nothing, not even itself.
\<close>

fun py_eq :: "cell \<Rightarrow> cell \<Rightarrow> bool" where
  "py_eq (Str a) (Str b) = (a = b)"
| "py_eq (Num a) (Num b) = (a = b)"
| "py_eq (Num a) (Flt b) = (sint a = nearest_double b)"
| "py_eq (Flt a) (Num b) = (nearest_double a = sint b)"
| "py_eq (Flt a) (Flt b) = (nearest_double a = nearest_double b)"
| "py_eq _ _ = False"

text \<open>Python's truth value of a cell (\<^verbatim>\<open>if selected_person:\<close>).\<close>

fun truthy :: "cell \<Rightarrow> bool" where
  "truthy (Str s) = (s \<noteq> [])"
| "truthy (Num n) = (n \<noteq> 0)"
| "truthy (Flt x) = (nearest_double x \<noteq> 0)"
| "truthy NaN = True"

text \<open>Decimal digits of a natural number, most significant first.\<close>

fun str_nat :: "nat \<Rightarrow> string" where
  "str_nat n =
     (if n < 10 then [char_of (48 + n)]
      else str_nat (n div 10) @ [char_of (48 + n mod 10)])"

declare str_nat.simps [simp del]

definition str_int :: "int \<Rightarrow> string" where
  "str_int i = (if i < 0 then CHR ''-'' # str_nat (nat (- i)) else str_nat (nat i))"

text \<open>
  \<^verbatim>\<open>str\<close> of a float with an integer value. Below \<open>10^16\<close> it is the digits followed by
  \<^verbatim>\<open>.0\<close>. From \<open>10^16\<close> on it is the exponent form of the shortest digit string that
  reads back as the same double, the nearest one if there are two of that length:
  \<open>shortest_at m n\<close> is that string's value among the decimals of \<open>n\<close> significant
  digits, if one reads back as \<open>m\<close>.
\<close>

definition shortest_at :: "nat \<Rightarrow> nat \<Rightarrow> nat option" where
  "shortest_at m n =
     (let p = 10 ^ (length (str_nat m) - n); lo = (m div p) * p; hi = lo + p
      in if round_nat lo = m \<and> round_nat hi = m
         then Some (if m - lo \<le> hi - m then lo else hi)
         else if round_nat lo = m then Some lo
         else if round_nat hi = m then Some hi
         else None)"

definition shortest_digits :: "nat \<Rightarrow> nat" where
  "shortest_digits m =
     (case List.map_filter (shortest_at m) [1..<18] of [] \<Rightarrow> m | c # _ \<Rightarrow> c)"

definition strip_zeros :: "string \<Rightarrow> string" where
  "strip_zeros s = rev (dropWhile (\<lambda>c. c = CHR ''0'') (rev s))"

definition repr_nat_float :: "nat \<Rightarrow> string" where
  "repr_nat_float m =
     (if m < 10 ^ 16 then str_nat m @ ''.0''
      else (let s = str_nat (shortest_digits m); d = strip_zeros s
            in [hd d] @ (if tl d = [] then [] else ''.'' @ tl d)
               @ ''e+'' @ str_nat (length s - 1)))"

definition repr_float :: "int \<Rightarrow> string" where
  "repr_float x =
     (if x < 0 then CHR ''-'' # repr_nat_float (nat (- x)) else repr_nat_float (nat x))"

text \<open>\<^verbatim>\<open>str(value)\<close>, as an f-string renders a cell.\<close>

fun str_cell :: "cell \<Rightarrow> string" where
  "str_cell (Str s) = s"
| "str_cell (Num n) = str_int (sint n)"
| "str_cell (Flt x) = repr_float (nearest_double x)"
| "str_cell NaN = ''nan''"

fun type_name :: "cell \<Rightarrow> string" where
  "type_name (Str s) = ''str''"
| "type_name (Num n) = ''int''"
| "type_name (Flt x) = ''float''"
| "type_name NaN = ''float''"

text \<open>
  The exceptions of class \<^verbatim>\<open>Exception\<close> that the program can meet. \<open>KeyError\<close> carries
  the missing key, the others their message; \<open>PyError\<close> stands for every exception raised
  inside a library (file not found, parse error, transport, authentication, quota).
\<close>

datatype py_exception =
    KeyError string
  | IndexError string
  | AttributeError string
  | PyError string

text \<open>\<^verbatim>\<open>str(e)\<close>: a \<open>KeyError\<close> prints the \<^verbatim>\<open>repr\<close> of its key.\<close>

fun str_exception :: "py_exception \<Rightarrow> string" where
  "str_exception (KeyError k) = [CHR 0x27] @ k @ [CHR 0x27]"
| "str_exception (IndexError m) = m"
| "str_exception (AttributeError m) = m"
| "str_exception (PyError m) = m"

type_synonym dict = "(string \<times> cell) list"

text \<open>
  A Python object handed to \<^verbatim>\<open>generate_email\<close> as one section of \<^verbatim>\<open>data\<close>: a dictionary
  (in insertion order) or a scalar, on which \<^verbatim>\<open>.items()\<close> raises.
\<close>

datatype pyobj = Dict dict | Scalar cell

type_synonym data = "(string \<times> pyobj) list"

text \<open>The calls into the user interface that leave a trace on the page.\<close>

datatype ui_event =
    StTitle string
  | StHeader string
  | StSubheader string
  | StInfo string
  | StMarkdown string
  | StSuccess string
  | StWarning string
  | StError string
  | StJson pyobj
  | StSpinner string
  | StTextArea string string
  | StDownloadButton string string string string

text \<open>
  Sequencing inside a \<^verbatim>\<open>try\<close> block: the first statement that raises ends the block
  with its exception.
\<close>

fun bind_exc :: "py_exception + 'a \<Rightarrow> ('a \<Rightarrow> py_exception + 'b) \<Rightarrow> py_exception + 'b" where
  "bind_exc (Inl e) f = Inl e"
| "bind_exc (Inr x) f = f x"

section \<open>Tables\<close>

text \<open>
  A \<^verbatim>\<open>DataFrame\<close>: the column labels (which \<^verbatim>\<open>read_csv\<close> makes distinct) and the rows
  in source order. A row shorter than the header is padded with \<^verbatim>\<open>NaN\<close>, as the
  parser does; cells beyond the header are not part of the frame.
\<close>

record frame =
  columns :: "string list"
  rows :: "cell list list"

text \<open>The cells of a row under their column labels, in column order.\<close>

fun labelled :: "string list \<Rightarrow> cell list \<Rightarrow> dict" where
  "labelled [] r = []"
| "labelled (c # cs) [] = (c, NaN) # labelled cs []"
| "labelled (c # cs) (v # vs) = (c, v) # labelled cs vs"

text \<open>\<^verbatim>\<open>d[k]\<close> on a dictionary.\<close>

definition dict_getitem :: "('k \<times> 'v) list \<Rightarrow> 'k \<Rightarrow> ('k \<Rightarrow> py_exception) \<Rightarrow> py_exception + 'v" where
  "dict_getitem d k err = (case map_of d k of None \<Rightarrow> Inl (err k) | Some v \<Rightarrow> Inr v)"

text \<open>The cell of row \<open>r\<close> in column \<open>c\<close>.\<close>

definition field :: "string list \<Rightarrow> string \<Rightarrow> cell list \<Rightarrow> cell" where
  "field cols c r = (case map_of (labelled cols r) c of None \<Rightarrow> NaN | Some v \<Rightarrow> v)"

text \<open>
  Every column has one type: \<^verbatim>\<open>object\<close> if it holds a string (or holds nothing),
  \<^verbatim>\<open>float64\<close> if it holds numbers of which one is a float or is missing, \<^verbatim>\<open>int64\<close>
  if it holds integers only. A \<^verbatim>\<open>float64\<close> column stores its integers as doubles.
\<close>

datatype dtype = Int64 | Float64 | Object

fun is_str :: "cell \<Rightarrow> bool" where
  "is_str (Str s) = True"
| "is_str c = False"

fun is_float :: "cell \<Rightarrow> bool" where
  "is_float (Flt x) = True"
| "is_float NaN = True"
| "is_float c = False"

definition col_dtype :: "cell list \<Rightarrow> dtype" where
  "col_dtype cs =
     (if cs = [] \<or> list_ex is_str cs then Object
      else if list_ex is_float cs then Float64
      else Int64)"

fun to_float :: "cell \<Rightarrow> cell" where
  "to_float (Num a) = Flt (nearest_double (sint a))"
| "to_float (Flt x) = Flt (nearest_double x)"
| "to_float c = c"

text \<open>A value as a column or a row of type \<open>dt\<close> stores it.\<close>

definition cast :: "dtype \<Rightarrow> cell \<Rightarrow> cell" where
  "cast dt c = (if dt = Float64 then to_float c else c)"

definition dtype_of :: "frame \<Rightarrow> string \<Rightarrow> dtype" where
  "dtype_of df c = col_dtype (map (field (columns df) c) (rows df))"

text \<open>A \<^verbatim>\<open>Series\<close>: its type and its values.\<close>

type_synonym series = "dtype \<times> cell list"

definition tolist :: "series \<Rightarrow> cell list" where
  "tolist s = snd s"

text \<open>\<^verbatim>\<open>df[c]\<close>: the column as a series, or \<open>KeyError\<close>.\<close>

definition getitem_column :: "frame \<Rightarrow> string \<Rightarrow> py_exception + series" where
  "getitem_column df c =
     (if c \<in> set (columns df)
      then Inr (dtype_of df c, map (\<lambda>r. cast (dtype_of df c) (field (columns df) c r)) (rows df))
      else Inl (KeyError c))"

text \<open>
  One entry of \<^verbatim>\<open>series == key\<close>. An \<^verbatim>\<open>object\<close> column compares its values as Python
  does. A numeric column compares integers with an integer key exactly, and in every
  other case converts both sides to doubles, so that integers above \<open>2^53\<close> are rounded
  before they are compared; a string or missing key equals nothing.
\<close>

fun float_eq :: "cell \<Rightarrow> cell \<Rightarrow> bool" where
  "float_eq (Flt a) (Flt b) = (nearest_double a = nearest_double b)"
| "float_eq _ _ = False"

fun is_int :: "cell \<Rightarrow> bool" where
  "is_int (Num a) = True"
| "is_int c = False"

definition series_eq :: "dtype \<Rightarrow> cell \<Rightarrow> cell \<Rightarrow> bool" where
  "series_eq dt v key =
     (if dt = Object \<or> (dt = Int64 \<and> is_int key) then py_eq v key
      else float_eq (to_float v) (to_float key))"

text \<open>\<^verbatim>\<open>series == key\<close>: the boolean mask.\<close>

definition eq_mask :: "series \<Rightarrow> cell \<Rightarrow> bool list" where
  "eq_mask col key = map (\<lambda>v. series_eq (fst col) v key) (snd col)"

text \<open>
  \<^verbatim>\<open>df[mask]\<close>: the rows whose mask entry is true, in order. The columns keep the types
  they have in \<open>df\<close>.
\<close>

record selection =
  sel_columns :: "string list"
  sel_dtypes :: "dtype list"
  sel_rows :: "cell list list"

definition getitem_mask :: "frame \<Rightarrow> bool list \<Rightarrow> selection" where
  "getitem_mask df bs =
     \<lparr>sel_columns = columns df,
      sel_dtypes = map (dtype_of df) (columns df),
      sel_rows = map fst (filter snd (zip (rows df) bs))\<rparr>"

text \<open>What \<^verbatim>\<open>.iloc[0]\<close> raises on a frame without rows.\<close>

definition out_of_bounds :: py_exception where
  "out_of_bounds = IndexError ''single positional indexer is out-of-bounds''"

text \<open>
  A row taken out of a frame is a series, with one type for all its values: \<^verbatim>\<open>object\<close>
  if a column is, else \<^verbatim>\<open>float64\<close> if a column is, else \<^verbatim>\<open>int64\<close>. In a
  \<^verbatim>\<open>float64\<close> row every integer becomes a double.
\<close>

definition common_dtype :: "dtype list \<Rightarrow> dtype" where
  "common_dtype dts =
     (if Object \<in> set dts then Object else if Float64 \<in> set dts then Float64 else Int64)"

text \<open>\<^verbatim>\<open>Series.to_dict()\<close> of a row: label and value, in column order.\<close>

definition to_dict :: "string list \<Rightarrow> dtype list \<Rightarrow> cell list \<Rightarrow> dict" where
  "to_dict cols dts r =
     map (\<lambda>(cv, dt). (fst cv, cast (common_dtype dts) (cast dt (snd cv))))
       (zip (labelled cols r) dts)"

text \<open>\<^verbatim>\<open>df.iloc[0].to_dict()\<close>: the first row as a dictionary; no row raises.\<close>

definition iloc0_to_dict :: "selection \<Rightarrow> py_exception + dict" where
  "iloc0_to_dict df =
     (case sel_rows df of
        [] \<Rightarrow> Inl out_of_bounds
      | r # _ \<Rightarrow> Inr (to_dict (sel_columns df) (sel_dtypes df) r))"

record all_data =
  linkedin :: frame
  website :: frame
  news :: frame

section \<open>The loader\<close>

text \<open>
  \<^verbatim>\<open>load_all_data\<close>. The file system and the CSV parser are the parameter \<open>read_csv\<close>:
  what \<^verbatim>\<open>pd.read_csv\<close> returns or raises for a path. The result is the events shown to
  the user and the returned value (\<open>None\<close> as in the source).
\<close>

definition load_all_data_try :: "(string \<Rightarrow> py_exception + frame) \<Rightarrow> py_exception + all_data" where
  "load_all_data_try read_csv =
     bind_exc (read_csv ''data/linkedin_data.csv'') (\<lambda>linkedin_data.
     bind_exc (read_csv ''data/website_data.csv'') (\<lambda>website_data.
     bind_exc (read_csv ''data/news_data.csv'') (\<lambda>news_data.
       Inr \<lparr>linkedin = linkedin_data, website = website_data, news = news_data\<rparr>)))"

definition load_all_data :: "(string \<Rightarrow> py_exception + frame) \<Rightarrow> ui_event list \<times> all_data option" where
  "load_all_data read_csv =
     (case load_all_data_try read_csv of
        Inr d \<Rightarrow> ([], Some d)
      | Inl e \<Rightarrow> ([StError (''Error loading data: '' @ str_exception e)], None))"

section \<open>The joiner\<close>

text \<open>The body of the \<^verbatim>\<open>try\<close> block of \<^verbatim>\<open>get_person_info\<close>, statement by statement.\<close>

definition get_person_info_try :: "cell \<Rightarrow> all_data \<Rightarrow> py_exception + data" where
  "get_person_info_try person_name d =
     bind_exc (getitem_column (linkedin d) ''name'') (\<lambda>names.
     bind_exc (iloc0_to_dict (getitem_mask (linkedin d) (eq_mask names person_name)))
       (\<lambda>linkedin_info.
     bind_exc (dict_getitem linkedin_info ''company'' KeyError) (\<lambda>company_name.
     bind_exc (getitem_column (website d) ''company_name'') (\<lambda>cnames.
     bind_exc (iloc0_to_dict (getitem_mask (website d) (eq_mask cnames company_name)))
       (\<lambda>website_info.
     bind_exc (getitem_column (news d) ''related_company'') (\<lambda>rnames.
     bind_exc (iloc0_to_dict (getitem_mask (news d) (eq_mask rnames company_name)))
       (\<lambda>news_info.
       Inr [(''person'', Dict linkedin_info),
            (''company'', Dict website_info),
            (''news'', Dict news_info)])))))))"

definition get_person_info :: "cell \<Rightarrow> all_data \<Rightarrow> ui_event list \<times> data option" where
  "get_person_info person_name d =
     (case get_person_info_try person_name d of
        Inr comprehensive_info \<Rightarrow> ([], Some comprehensive_info)
      | Inl e \<Rightarrow>
          ([StError (''Error retrieving comprehensive information: '' @ str_exception e)], None))"

section \<open>The joiner as the design describes it\<close>

text \<open>
  The design's words: find the first row of a table whose key field equals the key, take
  the employer field of the profile row as the key of the other two lookups, and fail at
  the stage (profile, company, news) where no row is found. A field equals a key as the
  column compares it, and a field is taken from a row as the row gives it.
\<close>

datatype stage = Profile | Company | News

definition row_matches :: "frame \<Rightarrow> string \<Rightarrow> cell \<Rightarrow> cell list \<Rightarrow> bool" where
  "row_matches df c k r =
     series_eq (dtype_of df c) (cast (dtype_of df c) (field (columns df) c r)) k"

definition first_match :: "frame \<Rightarrow> string \<Rightarrow> cell \<Rightarrow> cell list option" where
  "first_match df c k = List.find (row_matches df c k) (rows df)"

definition row_dict :: "frame \<Rightarrow> cell list \<Rightarrow> dict" where
  "row_dict df r = to_dict (columns df) (map (dtype_of df) (columns df)) r"

definition key_of :: "dict \<Rightarrow> string \<Rightarrow> cell" where
  "key_of entries c = (case map_of entries c of None \<Rightarrow> NaN | Some v \<Rightarrow> v)"

definition resolve_spec :: "cell \<Rightarrow> all_data \<Rightarrow> stage + (cell list \<times> cell list \<times> cell list)" where
  "resolve_spec p d =
     (case first_match (linkedin d) ''name'' p of
        None \<Rightarrow> Inl Profile
      | Some prow \<Rightarrow>
          (let k = key_of (row_dict (linkedin d) prow) ''company'' in
           case first_match (website d) ''company_name'' k of
             None \<Rightarrow> Inl Company
           | Some crow \<Rightarrow>
               (case first_match (news d) ''related_company'' k of
                  None \<Rightarrow> Inl News
                | Some nrow \<Rightarrow> Inr (prow, crow, nrow))))"

text \<open>The combined record built from three rows.\<close>

definition combined :: "all_data \<Rightarrow> cell list \<Rightarrow> cell list \<Rightarrow> cell list \<Rightarrow> data" where
  "combined d prow crow nrow =
     [(''person'', Dict (row_dict (linkedin d) prow)),
      (''company'', Dict (row_dict (website d) crow)),
      (''news'', Dict (row_dict (news d) nrow))]"

text \<open>The key columns that the three lookups read.\<close>

definition has_key_columns :: "all_data \<Rightarrow> bool" where
  "has_key_columns d =
     (''name'' \<in> set (columns (linkedin d)) \<and> ''company'' \<in> set (columns (linkedin d))
      \<and> ''company_name'' \<in> set (columns (website d))
      \<and> ''related_company'' \<in> set (columns (news d)))"

text \<open>The scenario of the design: one person, one company, one news item.\<close>

definition example_tables :: all_data where
  "example_tables =
     \<lparr>linkedin = \<lparr>columns = [''name'', ''company''],
                   rows = [[Str ''Jane Doe'', Str ''Acme'']]\<rparr>,
      website = \<lparr>columns = [''company_name'', ''summary''],
                  rows = [[Str ''Acme'', Str ''Widgets'']]\<rparr>,
      news = \<lparr>columns = [''related_company'', ''headline''],
               rows = [[Str ''Acme'', Str ''Acme raises funding'']]\<rparr>\<rparr>"

text \<open>The same person, whose employer has a news item and no company row.\<close>

definition example_no_company :: all_data where
  "example_no_company =
     example_tables\<lparr>website := \<lparr>columns = [''company_name'', ''summary''],
                                  rows = [[Str ''Globex'', Str ''Pipes'']]\<rparr>\<rparr>"


text \<open>
  Tables of numbers. The profile row has an empty column, so all its columns are
  numeric and one is \<^verbatim>\<open>float64\<close>; the employer is an integer above \<open>2^53\<close>.
\<close>

definition example_numeric :: all_data where
  "example_numeric =
     \<lparr>linkedin = \<lparr>columns = [''name'', ''company'', ''note''],
                   rows = [[Num 1, Num 9007199254740993, NaN]]\<rparr>,
      website = \<lparr>columns = [''company_name'', ''summary''],
                  rows = [[Num 9007199254740992, Str ''Wrong Co''],
                          [Num 9007199254740993, Str ''Right Co'']]\<rparr>,
      news = \<lparr>columns = [''related_company'', ''headline''],
               rows = [[Num 9007199254740993, Str ''Right Co raises funding'']]\<rparr>\<rparr>"

text \<open>Files that all load, the first without the column \<^verbatim>\<open>name\<close>.\<close>

definition read_csv_no_key :: "string \<Rightarrow> py_exception + frame" where
  "read_csv_no_key path =
     (if path = ''data/linkedin_data.csv''
      then Inr \<lparr>columns = [''company''], rows = [[Str ''Acme'']]\<rparr>
      else if path = ''data/website_data.csv'' then Inr (website example_tables)
      else Inr (news example_tables))"

text \<open>Files of which the third is absent.\<close>

definition read_csv_no_news :: "string \<Rightarrow> py_exception + frame" where
  "read_csv_no_news path =
     (if path = ''data/linkedin_data.csv'' then Inr (linkedin example_tables)
      else if path = ''data/website_data.csv'' then Inr (website example_tables)
      else Inl (PyError ''No such file or directory: data/news_data.csv''))"

text \<open>The files of the design's scenario.\<close>

definition read_csv_example :: "string \<Rightarrow> py_exception + frame" where
  "read_csv_example path =
     (if path = ''data/linkedin_data.csv''
      then Inr \<lparr>columns = [''name'', ''title'', ''company'', ''location'', ''about''],
                 rows = [[Str ''Jane Doe'', Str ''CTO'', Str ''Acme'', Str ''Oslo'',
                          Str ''Builds widgets'']]\<rparr>
      else if path = ''data/website_data.csv'' then Inr (website example_tables)
      else Inr (news example_tables))"

section \<open>The prompt and the generation client\<close>

definition nl :: string where
  "nl = [CHR 0x0A]"

text \<open>The eight blanks that indent every line of the triple-quoted templates.\<close>

definition ind :: string where
  "ind = ''        ''"

text \<open>
  \<^verbatim>\<open>str.upper()\<close> on the ASCII letters; the other bytes are left as they are (the case
  mapping of non-ASCII letters is outside the model).
\<close>

definition upper_char :: "char \<Rightarrow> char" where
  "upper_char c =
     (if CHR ''a'' \<le> c \<and> c \<le> CHR ''z'' then char_of (of_char c - (32::nat)) else c)"

definition upper :: "string \<Rightarrow> string" where
  "upper s = map upper_char s"

text \<open>\<^verbatim>\<open>sep.join(xs)\<close>.\<close>

fun join :: "string \<Rightarrow> string list \<Rightarrow> string" where
  "join sep [] = []"
| "join sep [x] = x"
| "join sep (x # y # ys) = x @ sep @ join sep (y # ys)"

text \<open>\<^verbatim>\<open>info.items()\<close>: only a dictionary has items.\<close>

fun items :: "pyobj \<Rightarrow> py_exception + dict" where
  "items (Dict d) = Inr d"
| "items (Scalar c) =
     Inl (AttributeError
       ([CHR 0x27] @ type_name c @ [CHR 0x27] @ '' object has no attribute ''
        @ [CHR 0x27] @ ''items'' @ [CHR 0x27]))"

definition section_header :: "string \<Rightarrow> string" where
  "section_header category = nl @ ''--- '' @ upper category @ '' INFORMATION ---'' @ nl"

definition field_line :: "string \<times> cell \<Rightarrow> string" where
  "field_line kv = fst kv @ '': '' @ str_cell (snd kv)"

text \<open>The loop over \<^verbatim>\<open>data.items()\<close>, with \<^verbatim>\<open>data_str\<close> as the accumulator.\<close>

fun format_data :: "data \<Rightarrow> string \<Rightarrow> py_exception + string" where
  "format_data [] data_str = Inr data_str"
| "format_data ((category, info) # rest) data_str =
     bind_exc (items info) (\<lambda>kvs.
       format_data rest
         (data_str @ section_header category @ join nl (map field_line kvs) @ nl))"

text \<open>The f-string \<^verbatim>\<open>full_prompt\<close>.\<close>

definition full_prompt :: "string \<Rightarrow> string \<Rightarrow> string" where
  "full_prompt data_str prompt =
     nl @ ind @ ''Based on the following data:'' @ nl
     @ ind @ nl
     @ ind @ data_str @ nl
     @ ind @ nl
     @ ind @ ''And following these instructions:'' @ nl
     @ ind @ prompt @ nl
     @ ind @ nl
     @ ind @ ''Generate a professional email with:'' @ nl
     @ ind @ ''1. A compelling subject line'' @ nl
     @ ind @ ''2. A personalized greeting'' @ nl
     @ ind @ ''3. Email body that incorporates the data effectively'' @ nl
     @ ind @ ''4. A professional closing'' @ nl
     @ ind @ nl
     @ ind @ ''Format the response as:'' @ nl
     @ ind @ nl
     @ ind @ ''Subject: [Subject Line]'' @ nl
     @ ind @ nl
     @ ind @ ''[Email Body]'' @ nl
     @ ind @ nl
     @ ind @ ''[Signature]'' @ nl
     @ ind"

text \<open>Prompt assembly: the formatting loop followed by the template.\<close>

definition assemble :: "data \<Rightarrow> string \<Rightarrow> py_exception + string" where
  "assemble d prompt = bind_exc (format_data d []) (\<lambda>data_str. Inr (full_prompt data_str prompt))"

text \<open>The decoding parameters and the safety settings, as the dictionaries of the source.\<close>

record generation_config =
  temperature :: rat
  top_p :: rat
  top_k :: int
  max_output_tokens :: int

record safety_setting =
  category :: string
  threshold :: string

text \<open>
  The arguments that \<^verbatim>\<open>genai.GenerativeModel(...)\<close> receives; an argument that is not
  passed is \<open>None\<close>, and the service then applies its own defaults.
\<close>

record model_args =
  model_name :: string
  arg_generation_config :: "generation_config option"
  arg_safety_settings :: "safety_setting list option"

text \<open>One request to the generation service: the model it was made through and the prompt.\<close>

type_synonym request = "model_args \<times> string"

text \<open>
  The \<^verbatim>\<open>google.generativeai\<close> library and the service behind it, as parameters: whether
  \<^verbatim>\<open>configure\<close> and the model constructor raise, and what \<^verbatim>\<open>generate_content\<close> does
  with a request: it raises, or returns a response whose \<^verbatim>\<open>.text\<close> raises or is a string.
\<close>

record genai =
  configure :: "string \<Rightarrow> py_exception option"
  GenerativeModel :: "model_args \<Rightarrow> py_exception option"
  generate_content :: "request \<Rightarrow> py_exception + (py_exception + string)"

text \<open>
  The body of the \<^verbatim>\<open>try\<close> block of \<^verbatim>\<open>generate_email\<close>. The two dictionaries are built
  and bound, and are not among the constructor's arguments: the two lines that would
  pass them are comments in the source. The result is the requests sent and the outcome.
\<close>

definition generate_email_try :: "genai \<Rightarrow> data \<Rightarrow> string \<Rightarrow> request list \<times> (py_exception + string)" where
  "generate_email_try lib d prompt =
     (let generation_config =
            \<lparr>temperature = 7 / 10, top_p = 95 / 100, top_k = 40, max_output_tokens = 1024\<rparr>;
          safety_settings =
            [\<lparr>category = ''HARM_CATEGORY_HARASSMENT'', threshold = ''BLOCK_MEDIUM_AND_ABOVE''\<rparr>,
             \<lparr>category = ''HARM_CATEGORY_HATE_SPEECH'', threshold = ''BLOCK_MEDIUM_AND_ABOVE''\<rparr>,
             \<lparr>category = ''HARM_CATEGORY_SEXUALLY_EXPLICIT'',
              threshold = ''BLOCK_MEDIUM_AND_ABOVE''\<rparr>,
             \<lparr>category = ''HARM_CATEGORY_DANGEROUS_CONTENT'',
              threshold = ''BLOCK_MEDIUM_AND_ABOVE''\<rparr>];
          model = \<lparr>model_name = ''gemini-1.5-flash'',
                   arg_generation_config = None,
                   arg_safety_settings = None\<rparr>
      in case GenerativeModel lib model of
           Some e \<Rightarrow> ([], Inl e)
         | None \<Rightarrow>
             (case assemble d prompt of
                Inl e \<Rightarrow> ([], Inl e)
              | Inr full \<Rightarrow>
                  ([(model, full)],
                   bind_exc (generate_content lib (model, full)) (\<lambda>response_text.
                     response_text))))"

definition generate_email :: "genai \<Rightarrow> data \<Rightarrow> string \<Rightarrow> request list \<times> string" where
  "generate_email lib d prompt =
     (case generate_email_try lib d prompt of
        (sent, Inr text) \<Rightarrow> (sent, text)
      | (sent, Inl e) \<Rightarrow> (sent, ''Error generating email: '' @ str_exception e))"

section \<open>The page\<close>

text \<open>
  What the user did on this run of the page: the widgets' return values. The selection
  box returns one of its options, or nothing when there is none.
\<close>

record ui_inputs =
  api_key_input :: string
  configure_clicked :: bool
  selectbox_choice :: "cell list \<Rightarrow> cell option"
  email_prompt_input :: string
  generate_clicked :: bool

text \<open>
  What a block of \<^verbatim>\<open>main\<close> did: the events shown, the requests sent to the generation
  service, and the exception that left the block, if one did.
\<close>

record outcome =
  shown :: "ui_event list"
  sent :: "request list"
  raised :: "py_exception option"

definition say :: "ui_event list \<Rightarrow> outcome" where
  "say evs = \<lparr>shown = evs, sent = [], raised = None\<rparr>"

definition raise :: "py_exception \<Rightarrow> outcome" where
  "raise e = \<lparr>shown = [], sent = [], raised = Some e\<rparr>"

text \<open>Two blocks in sequence: the second runs unless the first raised.\<close>

definition then_do :: "outcome \<Rightarrow> outcome \<Rightarrow> outcome" where
  "then_do a b =
     (case raised a of
        Some e \<Rightarrow> a
      | None \<Rightarrow> \<lparr>shown = shown a @ shown b, sent = sent a @ sent b, raised = raised b\<rparr>)"

text \<open>A statement that evaluates an expression, which may raise, and shows its value.\<close>

definition say_value :: "py_exception + 'a \<Rightarrow> ('a \<Rightarrow> ui_event list) \<Rightarrow> outcome" where
  "say_value v f = (case v of Inl e \<Rightarrow> raise e | Inr x \<Rightarrow> say (f x))"

text \<open>\<^verbatim>\<open>person_info[section]\<close> and \<^verbatim>\<open>person_info[section][key]\<close>.\<close>

definition section_of :: "data \<Rightarrow> string \<Rightarrow> py_exception + pyobj" where
  "section_of person_info s = dict_getitem person_info s KeyError"

definition section_field :: "data \<Rightarrow> string \<Rightarrow> string \<Rightarrow> py_exception + cell" where
  "section_field person_info s k =
     bind_exc (section_of person_info s) (\<lambda>obj.
       case obj of
         Dict entries \<Rightarrow> dict_getitem entries k KeyError
       | Scalar c \<Rightarrow> Inl (PyError ''string indices must be integers''))"

text \<open>The sidebar: the new value of the session flag and the events.\<close>

definition main_sidebar :: "genai \<Rightarrow> ui_inputs \<Rightarrow> bool \<Rightarrow> bool \<times> ui_event list" where
  "main_sidebar lib ui api_key_configured =
     (if configure_clicked ui then
        (if api_key_input ui \<noteq> [] then
           (case configure lib (api_key_input ui) of
              None \<Rightarrow>
                (True, [StHeader ''API Configuration'',
                        StSuccess ''API key configured successfully!''])
            | Some e \<Rightarrow>
                (api_key_configured,
                 [StHeader ''API Configuration'',
                  StError (''Error configuring API key: '' @ str_exception e)]))
         else
           (api_key_configured,
            [StHeader ''API Configuration'', StError ''Please enter a valid API key'']))
      else (api_key_configured, [StHeader ''API Configuration'']))"

definition api_key_help :: string where
  "api_key_help =
     nl @ ind @ ''### How to get a Google API Key:'' @ nl
     @ ind @ ''1. Go to [Google AI Studio](https://makersuite.google.com/)'' @ nl
     @ ind @ ''2. Sign in with your Google account'' @ nl
     @ ind @ ''3. Create a new API key'' @ nl
     @ ind @ ''4. Copy and paste the key in the sidebar'' @ nl
     @ ind"

text \<open>The block under \<^verbatim>\<open>if st.button("Generate Email")\<close>.\<close>

definition main_generate :: "genai \<Rightarrow> ui_inputs \<Rightarrow> data \<Rightarrow> outcome" where
  "main_generate lib ui person_info =
     (if generate_clicked ui then
        (if email_prompt_input ui \<noteq> [] then
           (case generate_email lib person_info (email_prompt_input ui) of
              (requests, email_content) \<Rightarrow>
                \<lparr>shown = [StSpinner ''Generating email...'',
                          StSubheader ''Generated Email'',
                          StTextArea [] email_content,
                          StDownloadButton ''Download Email'' email_content
                            ''generated_email.txt'' ''text/plain''],
                 sent = requests,
                 raised = None\<rparr>)
         else say [StWarning ''Please enter a prompt for email generation.''])
      else say [])"

text \<open>The block under \<^verbatim>\<open>if person_info\<close>: the summary, the three tabs, the generation.\<close>

definition main_person :: "genai \<Rightarrow> ui_inputs \<Rightarrow> data \<Rightarrow> outcome" where
  "main_person lib ui person_info =
     foldr then_do
       [say [StSubheader ''Person Summary''],
        say_value (section_field person_info ''person'' ''name'')
          (\<lambda>v. [StMarkdown (''### '' @ str_cell v)]),
        say_value (section_field person_info ''person'' ''title'')
          (\<lambda>v. [StMarkdown (''**Title:** '' @ str_cell v)]),
        say_value (section_field person_info ''person'' ''company'')
          (\<lambda>v. [StMarkdown (''**Company:** '' @ str_cell v)]),
        say_value (section_field person_info ''person'' ''location'')
          (\<lambda>v. [StMarkdown (''**Location:** '' @ str_cell v)]),
        say [StMarkdown ''### About''],
        say_value (section_field person_info ''person'' ''about'')
          (\<lambda>v. [StMarkdown (str_cell v)]),
        say_value (section_of person_info ''person'') (\<lambda>obj. [StJson obj]),
        say_value (section_of person_info ''company'') (\<lambda>obj. [StJson obj]),
        say_value (section_of person_info ''news'') (\<lambda>obj. [StJson obj]),
        say [StSubheader ''Email Generation''],
        main_generate lib ui person_info]
       (say [])"

text \<open>The block under \<^verbatim>\<open>if all_data is not None\<close>.\<close>

definition main_data :: "genai \<Rightarrow> ui_inputs \<Rightarrow> all_data \<Rightarrow> outcome" where
  "main_data lib ui d =
     (case getitem_column (linkedin d) ''name'' of
        Inl e \<Rightarrow> raise e
      | Inr name_column \<Rightarrow>
          (case selectbox_choice ui (tolist name_column) of
             None \<Rightarrow> say []
           | Some selected_person \<Rightarrow>
               if truthy selected_person then
                 (case get_person_info selected_person d of
                    (evs, Some person_info) \<Rightarrow>
                      then_do (say evs) (main_person lib ui person_info)
                  | (evs, None) \<Rightarrow>
                      say (evs @ [StError (''Could not retrieve comprehensive information ''
                                           @ ''for the selected person.'')]))
               else say []))"

text \<open>
  \<^verbatim>\<open>main\<close>: one run of the page, from the session flag and the user's inputs to the new
  flag and what happened.
\<close>

definition main :: "genai \<Rightarrow> (string \<Rightarrow> py_exception + frame) \<Rightarrow> ui_inputs \<Rightarrow> bool \<Rightarrow> bool \<times> outcome" where
  "main lib read_csv ui api_key_configured =
     (case main_sidebar lib ui api_key_configured of
        (configured, sidebar) \<Rightarrow>
          (configured,
           then_do
             (say ([StTitle ([CHR 0xF0, CHR 0x9F, CHR 0x93, CHR 0xA7] @ '' Email Generator''),
                    StSubheader
                      ''Generate personalized emails using AI and comprehensive data'']
                   @ sidebar))
             (if \<not> configured then
                say [StInfo (''Please configure your Google API key in the sidebar ''
                             @ ''to use the application.''),
                     StMarkdown api_key_help]
              else
                (case load_all_data read_csv of
                   (evs, Some d) \<Rightarrow> then_do (say evs) (main_data lib ui d)
                 | (evs, None) \<Rightarrow>
                     say (evs @ [StError (''Could not load data. Please check if the CSV ''
                                          @ ''files exist in the data directory.'')])))))"

text \<open>The model object as \<^verbatim>\<open>generate_email\<close> constructs it.\<close>

definition constructed_model :: model_args where
  "constructed_model =
     \<lparr>model_name = ''gemini-1.5-flash'',
      arg_generation_config = None,
      arg_safety_settings = None\<rparr>"

definition error_marker :: string where
  "error_marker = ''Error generating email: ''"

text \<open>A library in which nothing raises and the service answers every request alike.\<close>

definition answering_service :: genai where
  "answering_service =
     \<lparr>configure = (\<lambda>key. None),
      GenerativeModel = (\<lambda>args. None),
      generate_content = (\<lambda>req. Inr (Inr ''Subject: Hello''))\<rparr>"

text \<open>A library whose service is unreachable.\<close>

definition failing_service :: genai where
  "failing_service =
     \<lparr>configure = (\<lambda>key. None),
      GenerativeModel = (\<lambda>args. None),
      generate_content = (\<lambda>req. Inl (PyError ''503 Service Unavailable''))\<rparr>"

text \<open>The combined record of the design's scenario.\<close>

definition example_record :: data where
  "example_record =
     [(''person'', Dict [(''name'', Str ''Jane Doe''), (''company'', Str ''Acme'')]),
      (''company'', Dict [(''company_name'', Str ''Acme''), (''summary'', Str ''Widgets'')]),
      (''news'', Dict [(''related_company'', Str ''Acme''),
                       (''headline'', Str ''Acme raises funding'')])]"

text \<open>The combined record of a person whose profile has all the fields that the page shows.\<close>

definition example_person_info :: data where
  "example_person_info =
     [(''person'', Dict [(''name'', Str ''Jane Doe''), (''title'', Str ''CTO''),
                         (''company'', Str ''Acme''), (''location'', Str ''Oslo''),
                         (''about'', Str ''Builds widgets'')]),
      (''company'', Dict [(''company_name'', Str ''Acme''), (''summary'', Str ''Widgets'')]),
      (''news'', Dict [(''related_company'', Str ''Acme''),
                       (''headline'', Str ''Acme raises funding'')])]"

text \<open>A user who has configured the key, and presses the button with no instructions.\<close>

definition empty_prompt_inputs :: ui_inputs where
  "empty_prompt_inputs =
     \<lparr>api_key_input = [],
      configure_clicked = False,
      selectbox_choice = (\<lambda>options. case options of [] \<Rightarrow> None | x # _ \<Rightarrow> Some x),
      email_prompt_input = [],
      generate_clicked = True\<rparr>"

section \<open>Facts about tables and the joiner\<close>

lemma mask_filter: "map fst (filter snd (zip rs (map g rs))) = filter g rs"
  by (induction rs) auto

lemma find_filter: "List.find P xs = (case filter P xs of [] \<Rightarrow> None | x # _ \<Rightarrow> Some x)"
  by (induction xs) auto

lemma cast_NaN: "cast dt NaN = NaN"
  by (simp add: cast_def)

lemma cast_Str: "cast dt (Str s) = Str s"
  by (simp add: cast_def)

lemma cast_eq_Str: "cast dt v = Str s \<Longrightarrow> v = Str s"
  by (cases v) (auto simp: cast_def split: if_splits)

lemma series_eq_NaN_key: "series_eq dt v NaN = False"
  by (cases v) (simp_all add: series_eq_def)

lemma series_eq_NaN_value: "series_eq dt NaN k = False"
  by (cases k) (simp_all add: series_eq_def)

lemma series_eq_Str_key: "series_eq dt v (Str s) \<longleftrightarrow> dt = Object \<and> v = Str s"
  by (cases v) (auto simp: series_eq_def)

lemma map_of_labelled:
  "map_of (labelled cols r) c = (if c \<in> set cols then Some (field cols c r) else None)"
proof -
  have "fst ` set (labelled cols r) = set cols"
    by (induction cols r rule: labelled.induct) auto
  then have "map_of (labelled cols r) c = None \<longleftrightarrow> c \<notin> set cols"
    by (simp add: map_of_eq_None_iff)
  then show ?thesis by (auto simp: field_def)
qed

lemma field_absent: "c \<notin> set cols \<Longrightarrow> field cols c r = NaN"
  by (simp add: field_def map_of_labelled)

lemma field_Cons:
  "field (c0 # cs) c r = (if c = c0 then (case r of [] \<Rightarrow> NaN | v # _ \<Rightarrow> v) else field cs c (tl r))"
  by (cases r) (simp_all add: field_def)

lemma map_of_typed:
  "map_of (map (\<lambda>(cv, dt). (fst cv, g dt (snd cv))) (zip (labelled cols r) (map f cols))) c
     = (if c \<in> set cols then Some (g (f c) (field cols c r)) else None)"
proof (induction cols r rule: labelled.induct)
  case (1 r)
  then show ?case by simp
next
  case (2 c0 cs)
  then show ?case by (simp add: field_Cons)
next
  case (3 c0 cs v vs)
  then show ?case by (simp add: field_Cons)
qed

lemma map_of_row_dict:
  "map_of (row_dict df r) c =
     (if c \<in> set (columns df)
      then Some (cast (common_dtype (map (dtype_of df) (columns df)))
                   (cast (dtype_of df c) (field (columns df) c r)))
      else None)"
  unfolding row_dict_def to_dict_def
  by (rule map_of_typed [where g = "\<lambda>dt v. cast (common_dtype (map (dtype_of df) (columns df))) (cast dt v)"])

lemma row_matches_absent: "c \<notin> set (columns df) \<Longrightarrow> \<not> row_matches df c k r"
  by (simp add: row_matches_def field_absent cast_NaN series_eq_NaN_value)

lemma first_match_absent: "c \<notin> set (columns df) \<Longrightarrow> first_match df c k = None"
  by (simp add: first_match_def row_matches_absent find_None_iff)

lemma first_match_NaN: "first_match df c NaN = None"
  by (simp add: first_match_def find_None_iff row_matches_def series_eq_NaN_key)


lemma first_match_Some:
  assumes "first_match df c k = Some r"
  shows "row_matches df c k r \<and> c \<in> set (columns df) \<and> r \<in> set (rows df)"
proof -
  from assms have m: "row_matches df c k r" and r: "r \<in> set (rows df)"
    unfolding first_match_def by (auto simp: find_Some_iff)
  from m have "c \<in> set (columns df)"
    using row_matches_absent by blast
  with m r show ?thesis by simp
qed

lemma eq_mask_column:
  "eq_mask (dtype_of df c, map (\<lambda>r. cast (dtype_of df c) (field (columns df) c r)) (rows df)) k
     = map (row_matches df c k) (rows df)"
  by (simp add: eq_mask_def row_matches_def)

lemma lookup_first_k:
  "bind_exc (getitem_column df c)
     (\<lambda>col. bind_exc (iloc0_to_dict (getitem_mask df (eq_mask col k))) f) =
     (if c \<in> set (columns df) then
        (case first_match df c k of
           None \<Rightarrow> Inl out_of_bounds
         | Some r \<Rightarrow> f (row_dict df r))
      else Inl (KeyError c))"
  by (simp add: getitem_column_def eq_mask_column iloc0_to_dict_def getitem_mask_def mask_filter
      first_match_def find_filter row_dict_def split: list.splits)

lemma get_person_info_try_cases:
  "get_person_info_try p d =
     (if ''name'' \<notin> set (columns (linkedin d)) then Inl (KeyError ''name'') else
      (case first_match (linkedin d) ''name'' p of
         None \<Rightarrow> Inl out_of_bounds
       | Some prow \<Rightarrow>
          (if ''company'' \<notin> set (columns (linkedin d)) then Inl (KeyError ''company'') else
           if ''company_name'' \<notin> set (columns (website d))
           then Inl (KeyError ''company_name'') else
           (case first_match (website d) ''company_name''
                   (key_of (row_dict (linkedin d) prow) ''company'') of
              None \<Rightarrow> Inl out_of_bounds
            | Some crow \<Rightarrow>
               (if ''related_company'' \<notin> set (columns (news d))
                then Inl (KeyError ''related_company'') else
                (case first_match (news d) ''related_company''
                        (key_of (row_dict (linkedin d) prow) ''company'') of
                   None \<Rightarrow> Inl out_of_bounds
                 | Some nrow \<Rightarrow> Inr (combined d prow crow nrow)))))))"
  unfolding get_person_info_try_def lookup_first_k
  by (simp add: dict_getitem_def map_of_row_dict key_of_def lookup_first_k combined_def
      split: option.splits)

lemma key_of_absent: "c \<notin> set (columns df) \<Longrightarrow> key_of (row_dict df r) c = NaN"
  by (simp add: key_of_def map_of_row_dict)

lemma get_person_info_try_resolve:
  "get_person_info_try p d =
     (case resolve_spec p d of
        Inr (a, b, c) \<Rightarrow> Inr (combined d a b c)
      | Inl s \<Rightarrow>
          Inl (if ''name'' \<notin> set (columns (linkedin d)) then KeyError ''name''
               else if s = Profile then out_of_bounds
               else if ''company'' \<notin> set (columns (linkedin d)) then KeyError ''company''
               else if ''company_name'' \<notin> set (columns (website d))
                 then KeyError ''company_name''
               else if s = Company then out_of_bounds
               else if ''related_company'' \<notin> set (columns (news d))
                 then KeyError ''related_company''
               else out_of_bounds))"
  by (simp add: get_person_info_try_cases resolve_spec_def Let_def first_match_absent
      first_match_NaN key_of_absent split: option.splits)


lemmas example_eval =
  first_match_def row_matches_def dtype_of_def col_dtype_def field_def cast_def series_eq_def
  row_dict_def to_dict_def key_of_def common_dtype_def

lemma resolve_example_no_company:
  "resolve_spec (Str ''Jane Doe'') example_no_company = Inl Company"
  by (simp add: resolve_spec_def example_eval example_no_company_def example_tables_def)

lemma resolve_example_absent:
  "resolve_spec (Str ''John Smith'') example_no_company = Inl Profile"
  by (simp add: resolve_spec_def example_eval example_no_company_def example_tables_def)

lemma news_row_example_no_company:
  "first_match (news example_no_company) ''related_company'' (Str ''Acme'')
     = Some [Str ''Acme'', Str ''Acme raises funding'']"
  by (simp add: example_eval example_no_company_def example_tables_def)

section \<open>The joiner: failures\<close>

text \<open>
  Claim C1, as amended. Whenever a lookup selects no row, at the profile, the company or
  the news stage (at the company stage also when a news row exists for the employer),
  \<^verbatim>\<open>get_person_info\<close> produces no combined record: it returns \<open>None\<close> and shows one
  message, the fixed prefix followed by the text of the exception. The failure carries
  no stage: when the key columns exist, the exception is the same out-of-bounds error at
  every stage.
\<close>

theorem resolve_failure_no_record:
  assumes "resolve_spec p d = Inl s"
  shows "(\<exists>e. get_person_info p d =
            ([StError (''Error retrieving comprehensive information: '' @ str_exception e)],
             None))
         \<and> (has_key_columns d \<longrightarrow> get_person_info_try p d = Inl out_of_bounds)"
proof -
  from assms obtain e where e: "get_person_info_try p d = Inl e"
    by (simp add: get_person_info_try_resolve)
  then have "get_person_info p d =
      ([StError (''Error retrieving comprehensive information: '' @ str_exception e)], None)"
    by (simp add: get_person_info_def)
  moreover have "has_key_columns d \<longrightarrow> get_person_info_try p d = Inl out_of_bounds"
    using assms by (simp add: get_person_info_try_resolve has_key_columns_def)
  ultimately show ?thesis by blast
qed

theorem resolve_failure_no_record_witness:
  "resolve_spec (Str ''Jane Doe'') example_no_company = Inl Company
   \<and> first_match (news example_no_company) ''related_company'' (Str ''Acme'') \<noteq> None
   \<and> get_person_info (Str ''Jane Doe'') example_no_company =
       ([StError (''Error retrieving comprehensive information: ''
                  @ ''single positional indexer is out-of-bounds'')], None)"
proof -
  have k: "has_key_columns example_no_company"
    by (simp add: has_key_columns_def example_no_company_def example_tables_def)
  from resolve_failure_no_record [OF resolve_example_no_company] k
  have "get_person_info_try (Str ''Jane Doe'') example_no_company = Inl out_of_bounds"
    by simp
  then show ?thesis
    by (simp add: resolve_example_no_company news_row_example_no_company get_person_info_def
        out_of_bounds_def)
qed

text \<open>
  Claim C1 as stated does not hold: a failure at the profile stage and a failure at the
  company stage, on the same tables, give the same message and the same return value,
  so the outcome does not identify the stage.
\<close>

theorem stage_not_identified_counterexample:
  "resolve_spec (Str ''John Smith'') example_no_company = Inl Profile
   \<and> resolve_spec (Str ''Jane Doe'') example_no_company = Inl Company
   \<and> get_person_info (Str ''John Smith'') example_no_company
       = get_person_info (Str ''Jane Doe'') example_no_company"
proof -
  have k: "has_key_columns example_no_company"
    by (simp add: has_key_columns_def example_no_company_def example_tables_def)
  show ?thesis
    using k
    by (simp add: resolve_example_no_company resolve_example_absent get_person_info_def
        get_person_info_try_resolve has_key_columns_def)
qed

section \<open>The joiner: success\<close>

text \<open>
  When the employer key is a string, the three join keys of a returned record are that
  same string: a string equals only an equal string, and no conversion touches it.
\<close>

lemma first_match_Str:
  assumes "first_match df c (Str s) = Some r"
  shows "map_of (row_dict df r) c = Some (Str s)"
proof -
  from first_match_Some [OF assms]
  have m: "row_matches df c (Str s) r" and c: "c \<in> set (columns df)" by simp_all
  from m have "cast (dtype_of df c) (field (columns df) c r) = Str s"
    by (auto simp: row_matches_def series_eq_Str_key)
  with c show ?thesis by (simp add: map_of_row_dict cast_Str)
qed

lemma string_keys_agree:
  assumes "get_person_info p d =
             (evs, Some [(''person'', Dict li), (''company'', Dict wi), (''news'', Dict ni)])"
    and "map_of li ''company'' = Some (Str s)"
  shows "map_of wi ''company_name'' = Some (Str s) \<and> map_of ni ''related_company'' = Some (Str s)"
proof -
  from assms(1) have t: "get_person_info_try p d =
      Inr [(''person'', Dict li), (''company'', Dict wi), (''news'', Dict ni)]"
    by (auto simp: get_person_info_def split: sum.splits)
  then obtain prow crow nrow where
    r: "resolve_spec p d = Inr (prow, crow, nrow)"
    and li: "li = row_dict (linkedin d) prow"
    and wi: "wi = row_dict (website d) crow"
    and ni: "ni = row_dict (news d) nrow"
    by (auto simp: get_person_info_try_resolve combined_def split: sum.splits)
  from assms(2) li have k: "key_of (row_dict (linkedin d) prow) ''company'' = Str s"
    by (simp add: key_of_def)
  from r k have "first_match (website d) ''company_name'' (Str s) = Some crow"
    and "first_match (news d) ''related_company'' (Str s) = Some nrow"
    by (auto simp: resolve_spec_def Let_def split: option.splits)
  then show ?thesis
    using wi ni by (simp add: first_match_Str)
qed


lemma nearest_double_examples:
  "nearest_double 1 = 1"
  "nearest_double 9007199254740992 = 9007199254740992"
  "nearest_double 9007199254740993 = 9007199254740992"
  by (simp_all add: nearest_double_def round_nat_def binade.simps Let_def)

text \<open>
  Claim C3 does not hold of the code on tables of numbers. The profile row below is
  taken out as a row of doubles, which rounds the employer \<open>9007199254740993\<close> to
  \<open>9007199254740992\<close>; the company and news columns, compared as doubles with that
  key, match rows of either employer. The record returned joins three different keys.
\<close>

theorem join_keys_differ_on_numeric_tables:
  "get_person_info (Num 1) example_numeric =
     ([], Some [(''person'', Dict [(''name'', Flt 1), (''company'', Flt 9007199254740992),
                                   (''note'', NaN)]),
                (''company'', Dict [(''company_name'', Num 9007199254740992),
                                    (''summary'', Str ''Wrong Co'')]),
                (''news'', Dict [(''related_company'', Num 9007199254740993),
                                 (''headline'', Str ''Right Co raises funding'')])])
   \<and> \<not> py_eq (Flt 9007199254740992) (Num 9007199254740993)
   \<and> \<not> py_eq (Num 9007199254740992) (Num 9007199254740993)"
  by (simp add: get_person_info_def get_person_info_try_cases example_eval combined_def
      example_numeric_def nearest_double_examples)



section \<open>The loader: all or nothing\<close>

text \<open>
  Claim C4, as amended. If any of the three sources is absent or unreadable, that is, if
  \<^verbatim>\<open>pd.read_csv\<close> raises for one of the three paths, the whole load fails: one error
  message is shown and \<open>None\<close> is returned, so no table and no subset of the tables
  comes back.
\<close>

theorem load_fails_as_a_whole:
  assumes "\<exists>path\<in>{''data/linkedin_data.csv'', ''data/website_data.csv'',
                     ''data/news_data.csv''}. isl (read_csv path)"
  shows "\<exists>e. load_all_data read_csv =
           ([StError (''Error loading data: '' @ str_exception e)], None)"
proof -
  from assms obtain e where "load_all_data_try read_csv = Inl e"
    unfolding load_all_data_try_def
    by (cases "read_csv ''data/linkedin_data.csv''"; cases "read_csv ''data/website_data.csv''";
        cases "read_csv ''data/news_data.csv''") auto
  then have "load_all_data read_csv =
      ([StError (''Error loading data: '' @ str_exception e)], None)"
    by (simp add: load_all_data_def)
  then show ?thesis by blast
qed

theorem load_fails_as_a_whole_witness:
  "load_all_data read_csv_no_news =
     ([StError ''Error loading data: No such file or directory: data/news_data.csv''], None)"
proof -
  have "\<exists>path\<in>{''data/linkedin_data.csv'', ''data/website_data.csv'',
                   ''data/news_data.csv''}. isl (read_csv_no_news path)"
    by (simp add: read_csv_no_news_def)
  from load_fails_as_a_whole [OF this]
  obtain e where "load_all_data read_csv_no_news =
      ([StError (''Error loading data: '' @ str_exception e)], None)" by blast
  moreover have "load_all_data_try read_csv_no_news
      = Inl (PyError ''No such file or directory: data/news_data.csv'')"
    by (simp add: load_all_data_try_def read_csv_no_news_def)
  ultimately show ?thesis by (simp add: load_all_data_def)
qed

text \<open>
  Claim C4 as stated does not hold for a source that lacks its key column: the loader
  does not look at the columns, and returns all three tables.
\<close>

theorem missing_key_column_loads_counterexample:
  "''name'' \<notin> set [''company'']
   \<and> load_all_data read_csv_no_key =
       ([], Some \<lparr>linkedin = \<lparr>columns = [''company''], rows = [[Str ''Acme'']]\<rparr>,
                  website = website example_tables,
                  news = news example_tables\<rparr>)"
  by (simp add: load_all_data_def load_all_data_try_def read_csv_no_key_def)

section \<open>The generation client\<close>

text \<open>\<^verbatim>\<open>generate_email\<close> by the point at which an exception leaves the \<^verbatim>\<open>try\<close> block.\<close>

lemma generate_email_cases:
  "generate_email lib d prompt =
     (case GenerativeModel lib constructed_model of
        Some e \<Rightarrow> ([], error_marker @ str_exception e)
      | None \<Rightarrow>
          (case assemble d prompt of
             Inl e \<Rightarrow> ([], error_marker @ str_exception e)
           | Inr full \<Rightarrow>
               ([(constructed_model, full)],
                (case generate_content lib (constructed_model, full) of
                   Inl e \<Rightarrow> error_marker @ str_exception e
                 | Inr (Inl e) \<Rightarrow> error_marker @ str_exception e
                 | Inr (Inr text) \<Rightarrow> text))))"
  by (simp add: generate_email_def generate_email_try_def constructed_model_def
      error_marker_def Let_def split: option.splits sum.splits)

lemma assemble_example_record:
  "\<exists>full. assemble example_record prompt = Inr full"
  by (simp add: assemble_def example_record_def)

text \<open>
  Claim C2 does not hold of the code. On the design's scenario, with a service that
  answers, the one request sent is made through a model constructed with the model name
  alone: it carries neither the decoding parameters nor the safety settings.
\<close>

theorem generation_config_not_passed:
  "map fst (fst (generate_email answering_service example_record
                   ''Write a short networking email.''))
     = [\<lparr>model_name = ''gemini-1.5-flash'',
          arg_generation_config = None,
          arg_safety_settings = None\<rparr>]"
proof -
  obtain full where "assemble example_record ''Write a short networking email.'' = Inr full"
    using assemble_example_record by blast
  then show ?thesis
    by (simp add: generate_email_cases answering_service_def constructed_model_def)
qed

text \<open>
  Claim C5. Once the model is constructed and the prompt assembled, one request is sent.
  If the call raises (transport, authentication, service), or the response has no text
  to give, \<^verbatim>\<open>generate_email\<close> returns the error marker followed by the text of the
  exception; if the call succeeds it returns the service's text unchanged.
\<close>

theorem generate_email_service_outcome:
  assumes "GenerativeModel lib constructed_model = None"
    and "assemble d prompt = Inr full"
  shows "(case generate_content lib (constructed_model, full) of
            Inl e \<Rightarrow>
              generate_email lib d prompt =
                ([(constructed_model, full)], ''Error generating email: '' @ str_exception e)
          | Inr (Inl e) \<Rightarrow>
              generate_email lib d prompt =
                ([(constructed_model, full)], ''Error generating email: '' @ str_exception e)
          | Inr (Inr text) \<Rightarrow>
              generate_email lib d prompt = ([(constructed_model, full)], text))"
  using assms by (simp add: generate_email_cases error_marker_def split: sum.splits)

theorem generate_email_service_outcome_witness:
  "snd (generate_email failing_service example_record ''Write a short networking email.'')
     = ''Error generating email: 503 Service Unavailable''
   \<and> snd (generate_email answering_service example_record ''Write a short networking email.'')
     = ''Subject: Hello''"
proof -
  obtain full where f: "assemble example_record ''Write a short networking email.'' = Inr full"
    using assemble_example_record by blast
  have a: "GenerativeModel failing_service constructed_model = None"
    by (simp add: failing_service_def)
  have b: "GenerativeModel answering_service constructed_model = None"
    by (simp add: answering_service_def)
  from generate_email_service_outcome [OF a f] generate_email_service_outcome [OF b f]
  show ?thesis
    by (simp add: failing_service_def answering_service_def)
qed

text \<open>
  Claim C10. \<^verbatim>\<open>generate_email\<close> returns a string on every path. An exception of the
  model constructor or of the prompt formatting, before any request, gives the error
  marker followed by its text, and no request is sent. After the request, the result
  begins with the error marker or is the text that the service returned.
\<close>

theorem generate_email_never_raises:
  "(case GenerativeModel lib constructed_model of
      Some e \<Rightarrow> generate_email lib d prompt = ([], error_marker @ str_exception e)
    | None \<Rightarrow>
        (case assemble d prompt of
           Inl e \<Rightarrow> generate_email lib d prompt = ([], error_marker @ str_exception e)
         | Inr full \<Rightarrow>
             fst (generate_email lib d prompt) = [(constructed_model, full)]
             \<and> (prefix error_marker (snd (generate_email lib d prompt))
                \<or> generate_content lib (constructed_model, full)
                     = Inr (Inr (snd (generate_email lib d prompt))))))"
  by (simp add: generate_email_cases split: option.splits sum.splits)

theorem generate_email_never_raises_witness:
  "generate_email answering_service [(''person'', Scalar (Str ''Jane Doe''))] ''Write.''
     = ([], ''Error generating email: '' @ [CHR 0x27] @ ''str'' @ [CHR 0x27]
            @ '' object has no attribute '' @ [CHR 0x27] @ ''items'' @ [CHR 0x27])"
  using generate_email_never_raises
    [of answering_service "[(''person'', Scalar (Str ''Jane Doe''))]" "''Write.''"]
  by (simp add: answering_service_def assemble_def error_marker_def)

section \<open>Prompt assembly\<close>

text \<open>
  Claim C7. Two calls with the same combined record and the same instructions assemble
  the same prompt: whatever the state of the library and of the service in the two
  calls, the prompt texts of the requests they send are equal, byte for byte.
\<close>

theorem prompt_deterministic:
  assumes "d1 = d2" and "i1 = i2"
    and "(m1, t1) \<in> set (fst (generate_email lib1 d1 i1))"
    and "(m2, t2) \<in> set (fst (generate_email lib2 d2 i2))"
  shows "assemble d1 i1 = assemble d2 i2 \<and> assemble d1 i1 = Inr t1 \<and> t1 = t2"
  using assms
  by (auto simp: generate_email_cases split: option.splits sum.splits)

theorem prompt_deterministic_witness:
  "map snd (fst (generate_email answering_service example_record ''Write.''))
     = map snd (fst (generate_email failing_service example_record ''Write.''))
   \<and> fst (generate_email answering_service example_record ''Write.'') \<noteq> []"
proof -
  obtain full where f: "assemble example_record ''Write.'' = Inr full"
    using assemble_example_record by blast
  have a: "fst (generate_email answering_service example_record ''Write.'')
             = [(constructed_model, full)]"
    by (simp add: generate_email_cases f answering_service_def)
  have b: "fst (generate_email failing_service example_record ''Write.'')
             = [(constructed_model, full)]"
    by (simp add: generate_email_cases f failing_service_def)
  have "(constructed_model, full)
          \<in> set (fst (generate_email answering_service example_record ''Write.''))"
    and "(constructed_model, full)
          \<in> set (fst (generate_email failing_service example_record ''Write.''))"
    by (simp_all add: a b)
  from prompt_deterministic [OF refl refl this]
  show ?thesis by (simp add: a b)
qed

lemma upper_person: "upper ''person'' = ''PERSON''"
  by code_simp

lemma upper_company: "upper ''company'' = ''COMPANY''"
  by code_simp

lemma upper_news: "upper ''news'' = ''NEWS''"
  by code_simp

lemma sublist_in_data:
  assumes "sublist x data_str"
  shows "sublist x (full_prompt data_str prompt)"
proof -
  from assms obtain ps ss where "data_str = ps @ x @ ss"
    by (auto simp: sublist_def)
  then have "\<exists>ps' ss'. full_prompt data_str prompt = ps' @ x @ ss'"
    unfolding full_prompt_def by (metis append.assoc)
  then show ?thesis by (simp add: sublist_def)
qed

lemma sublist_instructions: "sublist prompt (full_prompt data_str prompt)"
proof -
  have "\<exists>ps ss. full_prompt data_str prompt = ps @ prompt @ ss"
    unfolding full_prompt_def by (metis append.assoc)
  then show ?thesis by (simp add: sublist_def)
qed

lemma format_combined:
  "format_data [(''person'', Dict p), (''company'', Dict c), (''news'', Dict n)] [] =
     Inr (nl @ ''--- PERSON INFORMATION ---'' @ nl @ join nl (map field_line p) @ nl
          @ nl @ ''--- COMPANY INFORMATION ---'' @ nl @ join nl (map field_line c) @ nl
          @ nl @ ''--- NEWS INFORMATION ---'' @ nl @ join nl (map field_line n) @ nl)"
  by (simp add: section_header_def upper_person upper_company upper_news)

text \<open>
  Claim C6. For every combined record (a person, a company and a news section) and
  every instructions string, the assembled prompt contains the three section headers
  and contains the instructions, unmodified, as a contiguous substring.
\<close>

theorem prompt_has_headers_and_instructions:
  "\<exists>full. assemble [(''person'', Dict p), (''company'', Dict c), (''news'', Dict n)]
              instructions = Inr full
          \<and> sublist ''--- PERSON INFORMATION ---'' full
          \<and> sublist ''--- COMPANY INFORMATION ---'' full
          \<and> sublist ''--- NEWS INFORMATION ---'' full
          \<and> sublist instructions full"
proof -
  let ?ds = "nl @ ''--- PERSON INFORMATION ---'' @ nl @ join nl (map field_line p) @ nl
          @ nl @ ''--- COMPANY INFORMATION ---'' @ nl @ join nl (map field_line c) @ nl
          @ nl @ ''--- NEWS INFORMATION ---'' @ nl @ join nl (map field_line n) @ nl"
  have a: "assemble [(''person'', Dict p), (''company'', Dict c), (''news'', Dict n)]
             instructions = Inr (full_prompt ?ds instructions)"
    by (simp only: assemble_def format_combined bind_exc.simps)
  have "\<exists>ps ss. ?ds = ps @ ''--- PERSON INFORMATION ---'' @ ss" by blast
  then have h1: "sublist ''--- PERSON INFORMATION ---'' ?ds" by (simp only: sublist_def)
  have "\<exists>ps ss. ?ds = ps @ ''--- COMPANY INFORMATION ---'' @ ss" by (metis append.assoc)
  then have h2: "sublist ''--- COMPANY INFORMATION ---'' ?ds" by (simp only: sublist_def)
  have "\<exists>ps ss. ?ds = ps @ ''--- NEWS INFORMATION ---'' @ ss" by (metis append.assoc)
  then have h3: "sublist ''--- NEWS INFORMATION ---'' ?ds" by (simp only: sublist_def)
  show ?thesis
    using a sublist_in_data [OF h1] sublist_in_data [OF h2] sublist_in_data [OF h3]
      sublist_instructions by blast
qed

section \<open>The page: empty instructions\<close>

lemma sent_say: "sent (say evs) = []"
  by (simp add: say_def)

lemma sent_raise: "sent (raise e) = []"
  by (simp add: raise_def)

lemma sent_say_value: "sent (say_value v f) = []"
  by (simp add: say_value_def sent_say sent_raise split: sum.splits)

lemma sent_then_do: "sent a = [] \<Longrightarrow> sent b = [] \<Longrightarrow> sent (then_do a b) = []"
  by (simp add: then_do_def split: option.splits)

lemma sent_main_generate:
  "email_prompt_input ui = [] \<Longrightarrow> sent (main_generate lib ui person_info) = []"
  by (simp add: main_generate_def sent_say)

lemma sent_main_person:
  "email_prompt_input ui = [] \<Longrightarrow> sent (main_person lib ui person_info) = []"
  by (simp add: main_person_def sent_then_do sent_say sent_say_value sent_main_generate)

lemma sent_main_data:
  "email_prompt_input ui = [] \<Longrightarrow> sent (main_data lib ui d) = []"
  by (simp add: main_data_def sent_say sent_raise sent_then_do sent_main_person
      split: sum.splits option.splits prod.splits)

lemma load_example:
  "load_all_data read_csv_example =
     ([], Some \<lparr>linkedin = \<lparr>columns = [''name'', ''title'', ''company'', ''location'', ''about''],
                 rows = [[Str ''Jane Doe'', Str ''CTO'', Str ''Acme'', Str ''Oslo'',
                          Str ''Builds widgets'']]\<rparr>,
                website = website example_tables, news = news example_tables\<rparr>)"
  by (simp add: load_all_data_def load_all_data_try_def read_csv_example_def)

lemma sent_then_do_say: "sent (then_do (say evs) b) = sent b"
  by (simp add: then_do_def say_def)

lemma sent_then_do_say_right: "sent (then_do a (say evs)) = sent a"
  by (simp add: then_do_def say_def split: option.splits)

lemma say_value_Inr: "say_value (Inr x) f = say (f x)"
  by (simp add: say_value_def)

lemma section_example:
  "section_of example_person_info ''person'' = Inr (snd (example_person_info ! 0))"
  "section_of example_person_info ''company'' = Inr (snd (example_person_info ! 1))"
  "section_of example_person_info ''news'' = Inr (snd (example_person_info ! 2))"
  "section_field example_person_info ''person'' ''name'' = Inr (Str ''Jane Doe'')"
  "section_field example_person_info ''person'' ''title'' = Inr (Str ''CTO'')"
  "section_field example_person_info ''person'' ''company'' = Inr (Str ''Acme'')"
  "section_field example_person_info ''person'' ''location'' = Inr (Str ''Oslo'')"
  "section_field example_person_info ''person'' ''about'' = Inr (Str ''Builds widgets'')"
  by (simp_all add: section_field_def section_of_def dict_getitem_def example_person_info_def)

lemma sent_main_person_example:
  "sent (main_person lib ui example_person_info) = sent (main_generate lib ui example_person_info)"
  by (simp add: main_person_def section_example say_value_Inr sent_then_do_say
      sent_then_do_say_right)

lemma get_person_info_example:
  "get_person_info (Str ''Jane Doe'')
     \<lparr>linkedin = \<lparr>columns = [''name'', ''title'', ''company'', ''location'', ''about''],
                 rows = [[Str ''Jane Doe'', Str ''CTO'', Str ''Acme'', Str ''Oslo'',
                          Str ''Builds widgets'']]\<rparr>,
                website = website example_tables, news = news example_tables\<rparr>
   = ([], Some example_person_info)"
  by (simp add: get_person_info_def get_person_info_try_cases example_eval
      example_tables_def combined_def example_person_info_def)

lemma main_sidebar_stays_configured: "main_sidebar lib ui True = (c, evs) \<Longrightarrow> c"
  by (auto simp: main_sidebar_def split: if_splits option.splits)

text \<open>
  With instructions, on the example files, the requests of the page are those of
  \<^verbatim>\<open>generate_email\<close>: the test of the instructions is the only one between the button
  and the client.
\<close>

lemma sent_main_example:
  "generate_clicked ui \<Longrightarrow> email_prompt_input ui \<noteq> [] \<Longrightarrow>
   selectbox_choice ui [Str ''Jane Doe''] = Some (Str ''Jane Doe'') \<Longrightarrow>
   sent (snd (main lib read_csv_example ui True)) =
     fst (generate_email lib example_person_info (email_prompt_input ui))"
  by (auto simp: main_def load_example main_data_def getitem_column_def tolist_def example_eval
      get_person_info_example sent_then_do_say sent_main_person_example main_generate_def
      split: prod.splits dest: main_sidebar_stays_configured)

text \<open>
  Claim C9. When the instructions are empty, a run of the page sends no request to the
  generation service, whatever else the user did and whatever the files and the
  library do.
\<close>

theorem empty_instructions_send_nothing:
  assumes "email_prompt_input ui = []"
  shows "sent (snd (main lib read_csv ui api_key_configured)) = []"
  using assms
  by (simp add: main_def sent_say sent_then_do sent_main_data
      split: prod.splits option.splits)

theorem empty_instructions_send_nothing_witness:
  "generate_clicked empty_prompt_inputs
   \<and> sent (snd (main answering_service read_csv_example empty_prompt_inputs True)) = []"
  using empty_instructions_send_nothing
    [of empty_prompt_inputs answering_service read_csv_example True]
  by (simp add: empty_prompt_inputs_def)

end
